theory Spec2Isabelle
  imports Main "HOL-Library.Word"
begin

unbundle bit_operations_syntax

section \<open>Machine words\<close>

type_synonym u8 = "8 word"
type_synonym u32 = "32 word"

subsection \<open>Helper macros of the absent headers\<close>

text \<open>
  Modelled from the spec: \<^verbatim>\<open>endianswap.h\<close> is not among the sources. Section 4.1 of the
  specification speaks of the "endian lane-swap" of a 2-byte and of a 4-byte value;
  \<^verbatim>\<open>BYTESWAP_16\<close> exchanges the two low bytes of its argument and yields a 16-bit
  value (zero-extended here), \<^verbatim>\<open>BYTESWAP_32\<close> reverses the four bytes of a 32-bit value.
  The lane comments of \<^verbatim>\<open>pci_conv_rd_data\<close> agree with this reading: they list the
  bytes of a result from the most significant one down, \<^verbatim>\<open>// 3 0\<close> for the case
  \<open>0x0B\<close> that is written out with shifts and masks, \<^verbatim>\<open>// 0 1\<close> for
  \<^verbatim>\<open>BYTESWAP_16(value)\<close> and \<^verbatim>\<open>// 0 1 2 3\<close> for \<^verbatim>\<open>BYTESWAP_32(value)\<close>, where
  byte 0 is \<^verbatim>\<open>value & 0xFF\<close>.
\<close>

definition BYTESWAP_16 :: "u32 \<Rightarrow> u32" where
  "BYTESWAP_16 x = push_bit 8 (x AND 0xFF) OR (drop_bit 8 x AND 0xFF)"

definition BYTESWAP_32 :: "u32 \<Rightarrow> u32" where
  "BYTESWAP_32 x =
     push_bit 24 (x AND 0xFF) OR push_bit 8 (x AND 0xFF00) OR
     (drop_bit 8 x AND 0xFF00) OR (drop_bit 24 x AND 0xFF)"

text \<open>
  Modelled from the spec: \<^verbatim>\<open>core/bitops.h\<close> is not among the sources. Section 4.1 of the
  specification describes the 4-byte accesses as rotations of the 32-bit value by whole
  bytes; \<^verbatim>\<open>ROTL_32\<close> and \<^verbatim>\<open>ROTR_32\<close> rotate a 32-bit value left and right by
  \<open>n\<close> bits (\<open>0 < n < 32\<close> at every use).
\<close>

definition ROTL_32 :: "u32 \<Rightarrow> nat \<Rightarrow> u32" where
  "ROTL_32 x n = push_bit n x OR drop_bit (32 - n) x"

definition ROTR_32 :: "u32 \<Rightarrow> nat \<Rightarrow> u32" where
  "ROTR_32 x n = drop_bit n x OR push_bit (32 - n) x"

section \<open>PCI configuration space byte-lane codec\<close>

text \<open>The struct \<^verbatim>\<open>AccessDetails\<close>; each field is a \<^verbatim>\<open>uint8_t\<close>.\<close>

record AccessDetails =
  size_ad :: u8
  offset_ad :: u8
  flags_ad :: u8

text \<open>
  The discriminant of both switches, \<^verbatim>\<open>details.size << 2 | details.offset\<close>. Both
  operands are promoted to \<^verbatim>\<open>int\<close> before the shift, so nothing is cut off: the value
  is below 1024.
\<close>

definition access_sel :: "AccessDetails \<Rightarrow> u32" where
  "access_sel details = push_bit 2 (ucast (size_ad details)) OR ucast (offset_ad details)"

definition pci_conv_rd_data :: "u32 \<Rightarrow> AccessDetails \<Rightarrow> u32" where
  "pci_conv_rd_data v details =
     (let sel = access_sel details in
      if sel = 0x04 then v AND 0xFF
      else if sel = 0x05 then drop_bit 8 v AND 0xFF
      else if sel = 0x06 then drop_bit 16 v AND 0xFF
      else if sel = 0x07 then drop_bit 24 v AND 0xFF
      else if sel = 0x08 then BYTESWAP_16 v
      else if sel = 0x09 then BYTESWAP_16 (drop_bit 8 v AND 0xFFFF)
      else if sel = 0x0A then BYTESWAP_16 (drop_bit 16 v AND 0xFFFF)
      else if sel = 0x0B then (drop_bit 16 v AND 0xFF00) OR (v AND 0xFF)
      else if sel = 0x10 then BYTESWAP_32 v
      else if sel = 0x11 then ROTL_32 (BYTESWAP_32 v) 8
      else if sel = 0x12 then ROTL_32 (BYTESWAP_32 v) 16
      else if sel = 0x13 then ROTR_32 (BYTESWAP_32 v) 8
      else 0xFFFFFFFF)"

definition pci_conv_wr_data :: "u32 \<Rightarrow> u32 \<Rightarrow> AccessDetails \<Rightarrow> u32" where
  "pci_conv_wr_data v1 v2 details =
     (let sel = access_sel details in
      if sel = 0x04 then (v1 AND NOT 0xFF) OR (v2 AND 0xFF)
      else if sel = 0x05 then (v1 AND NOT 0xFF00) OR push_bit 8 (v2 AND 0xFF)
      else if sel = 0x06 then (v1 AND NOT 0xFF0000) OR push_bit 16 (v2 AND 0xFF)
      else if sel = 0x07 then (v1 AND 0x00FFFFFF) OR push_bit 24 (v2 AND 0xFF)
      else if sel = 0x08 then (v1 AND NOT 0xFFFF) OR BYTESWAP_16 v2
      else if sel = 0x09 then (v1 AND NOT 0xFFFF00) OR push_bit 8 (BYTESWAP_16 v2)
      else if sel = 0x0A then (v1 AND 0x0000FFFF) OR push_bit 16 (BYTESWAP_16 v2)
      else if sel = 0x0B then
        (v1 AND 0x00FFFF00) OR push_bit 16 (v2 AND 0xFF00) OR (v2 AND 0xFF)
      else if sel = 0x10 then BYTESWAP_32 v2
      else if sel = 0x11 then ROTL_32 (BYTESWAP_32 v2) 8
      else if sel = 0x12 then ROTL_32 (BYTESWAP_32 v2) 16
      else if sel = 0x13 then ROTR_32 (BYTESWAP_32 v2) 8
      else 0xFFFFFFFF)"

text \<open>
  In \<^verbatim>\<open>pci_conv_wr_data\<close> the result of \<^verbatim>\<open>BYTESWAP_16\<close> is shifted left by 8 or 16 bits
  and then joined with a 32-bit value; the model shifts the zero-extended 32-bit value.
\<close>

text \<open>The discriminants that have a \<^verbatim>\<open>case\<close> label in the two switches.\<close>

definition handled_sel :: "u32 set" where
  "handled_sel = {0x04, 0x05, 0x06, 0x07, 0x08, 0x09, 0x0A, 0x0B, 0x10, 0x11, 0x12, 0x13}"

section \<open>The Grand Central I/O controller\<close>

subsection \<open>Constants and state\<close>

text \<open>
  The header \<^verbatim>\<open>devices/ioctrl/macio.h\<close> is not among the sources, so the numeric values
  of the interrupt register offsets and of the two interrupt flag bits are not known.
  They are parameters of the model: every function of the controller that names one of
  them takes the record of constants as its first argument.
\<close>

record macio_consts =
  MIO_INT_EVENTS1 :: u32
  MIO_INT_MASK1 :: u32
  MIO_INT_CLEAR1 :: u32
  MIO_INT_LEVELS1 :: u32
  MACIO_INT_CLR :: u32
  MACIO_INT_MODE :: u32

text \<open>
  The fields of the controller that \<^verbatim>\<open>grandcentral.cpp\<close> reads or assigns. They are
  declared in the absent \<^verbatim>\<open>macio.h\<close>; each is assigned 32-bit values only and is taken
  as a \<^verbatim>\<open>uint32_t\<close>.
\<close>

record GrandCentral =
  base_addr :: u32
  int_mask :: u32
  int_levels :: u32
  int_events :: u32
  nvram_addr_hi :: u32

subsection \<open>Calls into the subdevices\<close>

text \<open>
  The subdevices are external collaborators. A call that the controller forwards to one
  of them is recorded as a value: the method that is called and the arguments the
  controller computes for it. The \<^verbatim>\<open>int size\<close> argument is handed on as it is.
  \<^verbatim>\<open>ViaCuda::write\<close> takes its value as a \<^verbatim>\<open>uint8_t\<close>.
\<close>

datatype subdev_read =
    scsi_0_read u32
  | mace_read u32
  | escc_read u32
  | awacs_snd_ctrl_read u32 int
  | viacuda_read u32
  | nvram_read_byte u32
  | snd_out_dma_reg_read u32 int

datatype subdev_write =
    scsi_0_write u32 u32
  | mace_write u32 u32
  | escc_write u32 u32
  | awacs_snd_ctrl_write u32 u32 int
  | viacuda_write u32 u8
  | nvram_write_byte u32 u32
  | snd_out_dma_reg_write u32 u32 int

text \<open>
  What \<^verbatim>\<open>GrandCentral::read\<close> returns: the result of the forwarded call, or a value
  the controller produces itself.
\<close>

datatype read_result = Subdev subdev_read | Value u32

subsection \<open>Register reads\<close>

definition GrandCentral_read ::
  "macio_consts \<Rightarrow> GrandCentral \<Rightarrow> u32 \<Rightarrow> u32 \<Rightarrow> int \<Rightarrow> read_result \<times> GrandCentral" where
  "GrandCentral_read c this reg_start offset sz =
     (if offset AND 0x10000 \<noteq> 0 then
        (let subdev_num = drop_bit 12 offset AND 0xF in
         if subdev_num = 0 then (Subdev (scsi_0_read (drop_bit 4 offset AND 0xF)), this)
         else if subdev_num = 1 then (Subdev (mace_read (drop_bit 4 offset AND 0x1F)), this)
         else if subdev_num = 2 \<and> offset AND 0xFF < 16 then
           (Subdev (escc_read (drop_bit 1 offset AND 0xF)), this)
         else if subdev_num = 2 \<or> subdev_num = 3 then
           (Subdev (escc_read (drop_bit 4 offset AND 0xF)), this)
         else if subdev_num = 4 then (Subdev (awacs_snd_ctrl_read (offset AND 0xFF) sz), this)
         else if subdev_num = 6 \<or> subdev_num = 7 then
           (Subdev (viacuda_read (drop_bit 9 offset AND 0xF)), this)
         else if subdev_num = 0xA then (Value (BYTESWAP_32 0x100), this)
         else if subdev_num = 0xF then
           (Subdev (nvram_read_byte
              (push_bit 5 (nvram_addr_hi this) + (drop_bit 4 offset AND 0x1F))), this)
         else (Value 0, this))
      else if offset AND 0x8000 \<noteq> 0 then
        (let subdev_num = drop_bit 12 offset AND 0xF in
         if subdev_num = 8 then (Subdev (snd_out_dma_reg_read (offset AND 0xFF) sz), this)
         else (Value 0, this))
      else
        (if offset = MIO_INT_MASK1 c then (Value (BYTESWAP_32 (int_mask this)), this)
         else if offset = MIO_INT_LEVELS1 c then (Value (BYTESWAP_32 (int_levels this)), this)
         else if offset = MIO_INT_EVENTS1 c then (Value (BYTESWAP_32 (int_events this)), this)
         else (Value 0, this)))"

subsection \<open>Register writes\<close>

definition GrandCentral_write ::
  "macio_consts \<Rightarrow> GrandCentral \<Rightarrow> u32 \<Rightarrow> u32 \<Rightarrow> u32 \<Rightarrow> int
     \<Rightarrow> GrandCentral \<times> subdev_write option" where
  "GrandCentral_write c this reg_start offset val sz =
     (if offset AND 0x10000 \<noteq> 0 then
        (let subdev_num = drop_bit 12 offset AND 0xF in
         if subdev_num = 0 then (this, Some (scsi_0_write (drop_bit 4 offset AND 0xF) val))
         else if subdev_num = 1 then (this, Some (mace_write (drop_bit 4 offset AND 0x1F) val))
         else if subdev_num = 2 \<and> offset AND 0xFF < 16 then
           (this, Some (escc_write (drop_bit 1 offset AND 0xF) val))
         else if subdev_num = 2 \<or> subdev_num = 3 then
           (this, Some (escc_write (drop_bit 4 offset AND 0xF) val))
         else if subdev_num = 4 then
           (this, Some (awacs_snd_ctrl_write (offset AND 0xFF) val sz))
         else if subdev_num = 6 \<or> subdev_num = 7 then
           (this, Some (viacuda_write (drop_bit 9 offset AND 0xF) (ucast val)))
         else if subdev_num = 0xD then
           (if sz = 4 then (this\<lparr>nvram_addr_hi := BYTESWAP_32 val\<rparr>, None)
            else if sz = 2 then (this\<lparr>nvram_addr_hi := BYTESWAP_16 val\<rparr>, None)
            else (this\<lparr>nvram_addr_hi := val\<rparr>, None))
         else if subdev_num = 0xF then
           (this, Some (nvram_write_byte
              (push_bit 5 (nvram_addr_hi this) + (drop_bit 4 offset AND 0x1F)) val))
         else (this, None))
      else if offset AND 0x8000 \<noteq> 0 then
        (let subdev_num = drop_bit 12 offset AND 0xF in
         if subdev_num = 8 then (this, Some (snd_out_dma_reg_write (offset AND 0xFF) val sz))
         else (this, None))
      else
        (if offset = MIO_INT_MASK1 c then (this\<lparr>int_mask := BYTESWAP_32 val\<rparr>, None)
         else if offset = MIO_INT_CLEAR1 c then
           (if val AND MACIO_INT_CLR c \<noteq> 0 then (this\<lparr>int_events := 0\<rparr>, None)
            else (this\<lparr>int_events := int_events this AND BYTESWAP_32 val\<rparr>, None))
         else (this, None)))"

subsection \<open>Interrupt sources and acknowledgement\<close>

text \<open>
  Modelled from the spec: the enumeration \<^verbatim>\<open>IntSrc\<close> is declared in a header that is not
  among the sources. Section 3 of the specification calls it a small closed set of
  symbolic interrupt sources. The model has the three enumerators that
  \<^verbatim>\<open>register_dev_int\<close> names, and \<open>other_IntSrc n\<close> for every other value of the
  enumeration.
\<close>

datatype IntSrc = VIA_CUDA | SCSI1 | SWIM3 | other_IntSrc int

text \<open>The calls of \<^verbatim>\<open>ABORT_F\<close>: each one ends the process.\<close>

datatype abort =
    unknown_interrupt_source
  | register_dma_int_not_implemented
  | native_interrupt_mode_not_implemented
  | ack_dma_int_not_implemented

definition register_dev_int :: "IntSrc \<Rightarrow> abort + u32" where
  "register_dev_int src_id =
     (case src_id of
        VIA_CUDA \<Rightarrow> Inr (push_bit 18 1)
      | SCSI1 \<Rightarrow> Inr (push_bit 12 1)
      | SWIM3 \<Rightarrow> Inr (push_bit 19 1)
      | other_IntSrc n \<Rightarrow> Inl unknown_interrupt_source)"

definition register_dma_int :: "IntSrc \<Rightarrow> abort + u32" where
  "register_dma_int src_id = Inl register_dma_int_not_implemented"

text \<open>
  \<^verbatim>\<open>ack_int\<close> returns the updated controller and whether \<^verbatim>\<open>ppc_ext_int()\<close> was called.
\<close>

definition ack_int ::
  "macio_consts \<Rightarrow> GrandCentral \<Rightarrow> u32 \<Rightarrow> u8 \<Rightarrow> abort + (GrandCentral \<times> bool)" where
  "ack_int c this irq_id irq_line_state =
     (if int_mask this AND MACIO_INT_MODE c \<noteq> 0 then
        (let s1 = this\<lparr>int_events := int_events this OR irq_id\<rparr>;
             s2 = s1\<lparr>int_events := int_events s1 AND int_mask s1\<rparr>;
             s3 = (if irq_line_state \<noteq> 0 then s2\<lparr>int_levels := int_levels s2 OR irq_id\<rparr>
                   else s2\<lparr>int_levels := int_levels s2 AND NOT irq_id\<rparr>)
         in Inr (s3, int_events s3 \<noteq> 0))
      else Inl native_interrupt_mode_not_implemented)"

definition ack_dma_int :: "GrandCentral \<Rightarrow> u32 \<Rightarrow> u8 \<Rightarrow> abort + GrandCentral" where
  "ack_dma_int this irq_id irq_line_state = Inl ack_dma_int_not_implemented"

subsection \<open>Sequences of calls\<close>

text \<open>
  The calls that reach the controller's interrupt state: an acknowledgement, a register
  write and a register read. A mask update is the write to \<^verbatim>\<open>MIO_INT_MASK1\<close>, clearing
  events is the write to \<^verbatim>\<open>MIO_INT_CLEAR1\<close>. A sequence of calls stops at the first
  abort.
\<close>

datatype gc_call =
    call_ack_int u32 u8
  | call_write u32 u32 int
  | call_read u32 int

definition set_mask :: "macio_consts \<Rightarrow> u32 \<Rightarrow> gc_call" where
  "set_mask c new_mask = call_write (MIO_INT_MASK1 c) new_mask 4"

definition clear_events :: "macio_consts \<Rightarrow> u32 \<Rightarrow> gc_call" where
  "clear_events c v = call_write (MIO_INT_CLEAR1 c) v 4"

fun gc_step :: "macio_consts \<Rightarrow> GrandCentral \<Rightarrow> gc_call \<Rightarrow> abort + GrandCentral" where
  "gc_step c this (call_ack_int irq_id irq_line_state) =
     (case ack_int c this irq_id irq_line_state of
        Inl e \<Rightarrow> Inl e
      | Inr (this', notified) \<Rightarrow> Inr this')"
| "gc_step c this (call_write offset val sz) = Inr (fst (GrandCentral_write c this 0 offset val sz))"
| "gc_step c this (call_read offset sz) = Inr (snd (GrandCentral_read c this 0 offset sz))"

fun gc_run :: "macio_consts \<Rightarrow> GrandCentral \<Rightarrow> gc_call list \<Rightarrow> abort + GrandCentral" where
  "gc_run c this [] = Inr this"
| "gc_run c this (x # xs) =
     (case gc_step c this x of Inl e \<Rightarrow> Inl e | Inr this' \<Rightarrow> gc_run c this' xs)"

subsection \<open>A sample configuration\<close>

text \<open>
  One assignment of the constants, with the four interrupt registers in the Interrupt
  Control window, and a controller with every field zero. They serve to instantiate the
  theorems below at concrete inputs.
\<close>

definition sample_consts :: macio_consts where
  "sample_consts = \<lparr>MIO_INT_EVENTS1 = 0x20, MIO_INT_MASK1 = 0x24, MIO_INT_CLEAR1 = 0x28,
     MIO_INT_LEVELS1 = 0x2C, MACIO_INT_CLR = 0x80, MACIO_INT_MODE = 0x80000000\<rparr>"

definition sample_state :: GrandCentral where
  "sample_state = \<lparr>base_addr = 0, int_mask = 0, int_levels = 0, int_events = 0,
     nvram_addr_hi = 0\<rparr>"

section \<open>Bit-level reasoning on 32-bit values\<close>

lemma mask_FF: "(0xFF :: u32) = mask 8"
  by (simp add: mask_eq_decr_exp)

lemma mask_FFFF: "(0xFFFF :: u32) = mask 16"
  by (simp add: mask_eq_decr_exp)

lemma mask_FFFFFF: "(0xFFFFFF :: u32) = mask 24"
  by (simp add: mask_eq_decr_exp)

lemma mask_FF00: "(0xFF00 :: u32) = push_bit 8 (mask 8)"
  by (simp add: mask_eq_decr_exp)

lemma mask_FF0000: "(0xFF0000 :: u32) = push_bit 16 (mask 8)"
  by (simp add: mask_eq_decr_exp)

lemma mask_FFFF00: "(0xFFFF00 :: u32) = push_bit 8 (mask 16)"
  by (simp add: mask_eq_decr_exp)

lemmas lane_masks = mask_FF mask_FFFF mask_FFFFFF mask_FF00 mask_FF0000 mask_FFFF00

text \<open>Two 32-bit values are equal when they agree on each of the four byte lanes.\<close>

lemma u32_eq_lanes:
  fixes a b :: u32
  assumes l0: "\<And>k. k < 8 \<Longrightarrow> bit a k = bit b k"
    and l1: "\<And>k. k < 8 \<Longrightarrow> bit a (8 + k) = bit b (8 + k)"
    and l2: "\<And>k. k < 8 \<Longrightarrow> bit a (16 + k) = bit b (16 + k)"
    and l3: "\<And>k. k < 8 \<Longrightarrow> bit a (24 + k) = bit b (24 + k)"
  shows "a = b"
proof (rule bit_word_eqI)
  fix n :: nat
  assume "n < LENGTH(32)"
  then consider "n < 8" | "8 \<le> n \<and> n < 16" | "16 \<le> n \<and> n < 24" | "24 \<le> n \<and> n < 32"
    by fastforce
  then show "bit a n = bit b n"
  proof cases
    case 1
    then show ?thesis by (rule l0)
  next
    case 2
    then have "n - 8 < 8" and "8 + (n - 8) = n" by linarith+
    with l1 [of "n - 8"] show ?thesis by simp
  next
    case 3
    then have "n - 16 < 8" and "16 + (n - 16) = n" by linarith+
    with l2 [of "n - 16"] show ?thesis by simp
  next
    case 4
    then have "n - 24 < 8" and "24 + (n - 24) = n" by linarith+
    with l3 [of "n - 24"] show ?thesis by simp
  qed
qed

lemma bit_u32_high: "32 \<le> n \<Longrightarrow> bit (x :: u32) n = False"
  using bit_imp_le_length [of x n] by auto

text \<open>Where each byte lane of a swapped or rotated value comes from.\<close>

lemma bit_BYTESWAP_32:
  assumes "k < 8"
  shows "bit (BYTESWAP_32 x) k = bit x (24 + k)"
    and "bit (BYTESWAP_32 x) (8 + k) = bit x (16 + k)"
    and "bit (BYTESWAP_32 x) (16 + k) = bit x (8 + k)"
    and "bit (BYTESWAP_32 x) (24 + k) = bit x k"
  using assms unfolding BYTESWAP_32_def lane_masks
  by (simp_all add: bit_simps add.commute bit_u32_high)

lemma bit_ROTL_32_8:
  assumes "k < 8"
  shows "bit (ROTL_32 x 8) k = bit x (24 + k)"
    and "bit (ROTL_32 x 8) (8 + k) = bit x k"
    and "bit (ROTL_32 x 8) (16 + k) = bit x (8 + k)"
    and "bit (ROTL_32 x 8) (24 + k) = bit x (16 + k)"
  using assms unfolding ROTL_32_def
  by (simp_all add: bit_simps add.commute bit_u32_high)

lemma bit_ROTL_32_16:
  assumes "k < 8"
  shows "bit (ROTL_32 x 16) k = bit x (16 + k)"
    and "bit (ROTL_32 x 16) (8 + k) = bit x (24 + k)"
    and "bit (ROTL_32 x 16) (16 + k) = bit x k"
    and "bit (ROTL_32 x 16) (24 + k) = bit x (8 + k)"
  using assms unfolding ROTL_32_def
  by (simp_all add: bit_simps add.commute bit_u32_high)

lemma bit_ROTR_32_8:
  assumes "k < 8"
  shows "bit (ROTR_32 x 8) k = bit x (8 + k)"
    and "bit (ROTR_32 x 8) (8 + k) = bit x (16 + k)"
    and "bit (ROTR_32 x 8) (16 + k) = bit x (24 + k)"
    and "bit (ROTR_32 x 8) (24 + k) = bit x k"
  using assms unfolding ROTR_32_def
  by (simp_all add: bit_simps add.commute bit_u32_high)

lemmas lane_bits = bit_BYTESWAP_32 bit_ROTL_32_8 bit_ROTL_32_16 bit_ROTR_32_8

lemma BYTESWAP_32_involution: "BYTESWAP_32 (BYTESWAP_32 x) = x"
  by (rule u32_eq_lanes) (simp_all add: lane_bits)

section \<open>Writing back what was read\<close>

text \<open>One lemma for each \<^verbatim>\<open>case\<close> label: the write expression applied to the read expression.\<close>

lemma rd_wr_04: "(v AND NOT 0xFF) OR ((v AND 0xFF) AND 0xFF) = (v :: u32)"
  unfolding lane_masks by (rule u32_eq_lanes) (simp_all add: bit_simps add.commute)

lemma rd_wr_05:
  "(v AND NOT 0xFF00) OR push_bit 8 ((drop_bit 8 v AND 0xFF) AND 0xFF) = (v :: u32)"
  unfolding lane_masks by (rule u32_eq_lanes) (simp_all add: bit_simps add.commute)

lemma rd_wr_06:
  "(v AND NOT 0xFF0000) OR push_bit 16 ((drop_bit 16 v AND 0xFF) AND 0xFF) = (v :: u32)"
  unfolding lane_masks by (rule u32_eq_lanes) (simp_all add: bit_simps add.commute)

lemma rd_wr_07:
  "(v AND 0x00FFFFFF) OR push_bit 24 ((drop_bit 24 v AND 0xFF) AND 0xFF) = (v :: u32)"
  unfolding lane_masks by (rule u32_eq_lanes) (simp_all add: bit_simps add.commute)

lemma rd_wr_08: "(v AND NOT 0xFFFF) OR BYTESWAP_16 (BYTESWAP_16 v) = v"
  unfolding BYTESWAP_16_def lane_masks
  by (rule u32_eq_lanes) (simp_all add: bit_simps add.commute)

lemma rd_wr_09:
  "(v AND NOT 0xFFFF00) OR
     push_bit 8 (BYTESWAP_16 (BYTESWAP_16 (drop_bit 8 v AND 0xFFFF))) = v"
  unfolding BYTESWAP_16_def lane_masks
  by (rule u32_eq_lanes) (simp_all add: bit_simps add.commute)

lemma rd_wr_0A:
  "(v AND 0x0000FFFF) OR
     push_bit 16 (BYTESWAP_16 (BYTESWAP_16 (drop_bit 16 v AND 0xFFFF))) = v"
  unfolding BYTESWAP_16_def lane_masks
  by (rule u32_eq_lanes) (simp_all add: bit_simps add.commute)

lemma rd_wr_0B:
  "(v AND 0x00FFFF00) OR
     push_bit 16 (((drop_bit 16 v AND 0xFF00) OR (v AND 0xFF)) AND 0xFF00) OR
     (((drop_bit 16 v AND 0xFF00) OR (v AND 0xFF)) AND 0xFF) = (v :: u32)"
  unfolding lane_masks by (rule u32_eq_lanes) (simp_all add: bit_simps add.commute)

lemma rd_wr_11: "ROTL_32 (BYTESWAP_32 (ROTL_32 (BYTESWAP_32 v) 8)) 8 = v"
  by (rule u32_eq_lanes) (simp_all add: lane_bits)

lemma rd_wr_12: "ROTL_32 (BYTESWAP_32 (ROTL_32 (BYTESWAP_32 v) 16)) 16 = v"
  by (rule u32_eq_lanes) (simp_all add: lane_bits)

lemma rd_wr_13: "ROTR_32 (BYTESWAP_32 (ROTR_32 (BYTESWAP_32 v) 8)) 8 = v"
  by (rule u32_eq_lanes) (simp_all add: lane_bits)

lemmas rd_wr_cases =
  rd_wr_04 rd_wr_05 rd_wr_06 rd_wr_07 rd_wr_08 rd_wr_09 rd_wr_0A rd_wr_0B
  BYTESWAP_32_involution rd_wr_11 rd_wr_12 rd_wr_13

lemma access_sel_valid:
  "size_ad d = 1 \<Longrightarrow> offset_ad d = 0 \<Longrightarrow> access_sel d = 0x04"
  "size_ad d = 1 \<Longrightarrow> offset_ad d = 1 \<Longrightarrow> access_sel d = 0x05"
  "size_ad d = 1 \<Longrightarrow> offset_ad d = 2 \<Longrightarrow> access_sel d = 0x06"
  "size_ad d = 1 \<Longrightarrow> offset_ad d = 3 \<Longrightarrow> access_sel d = 0x07"
  "size_ad d = 2 \<Longrightarrow> offset_ad d = 0 \<Longrightarrow> access_sel d = 0x08"
  "size_ad d = 2 \<Longrightarrow> offset_ad d = 1 \<Longrightarrow> access_sel d = 0x09"
  "size_ad d = 2 \<Longrightarrow> offset_ad d = 2 \<Longrightarrow> access_sel d = 0x0A"
  "size_ad d = 2 \<Longrightarrow> offset_ad d = 3 \<Longrightarrow> access_sel d = 0x0B"
  "size_ad d = 4 \<Longrightarrow> offset_ad d = 0 \<Longrightarrow> access_sel d = 0x10"
  "size_ad d = 4 \<Longrightarrow> offset_ad d = 1 \<Longrightarrow> access_sel d = 0x11"
  "size_ad d = 4 \<Longrightarrow> offset_ad d = 2 \<Longrightarrow> access_sel d = 0x12"
  "size_ad d = 4 \<Longrightarrow> offset_ad d = 3 \<Longrightarrow> access_sel d = 0x13"
  by (simp_all add: access_sel_def)

text \<open>The two switches, one equation for each \<^verbatim>\<open>case\<close> label.\<close>

lemma pci_conv_rd_data_sel:
  "access_sel d = 0x04 \<Longrightarrow> pci_conv_rd_data v d = v AND 0xFF"
  "access_sel d = 0x05 \<Longrightarrow> pci_conv_rd_data v d = drop_bit 8 v AND 0xFF"
  "access_sel d = 0x06 \<Longrightarrow> pci_conv_rd_data v d = drop_bit 16 v AND 0xFF"
  "access_sel d = 0x07 \<Longrightarrow> pci_conv_rd_data v d = drop_bit 24 v AND 0xFF"
  "access_sel d = 0x08 \<Longrightarrow> pci_conv_rd_data v d = BYTESWAP_16 v"
  "access_sel d = 0x09 \<Longrightarrow> pci_conv_rd_data v d = BYTESWAP_16 (drop_bit 8 v AND 0xFFFF)"
  "access_sel d = 0x0A \<Longrightarrow> pci_conv_rd_data v d = BYTESWAP_16 (drop_bit 16 v AND 0xFFFF)"
  "access_sel d = 0x0B \<Longrightarrow> pci_conv_rd_data v d = (drop_bit 16 v AND 0xFF00) OR (v AND 0xFF)"
  "access_sel d = 0x10 \<Longrightarrow> pci_conv_rd_data v d = BYTESWAP_32 v"
  "access_sel d = 0x11 \<Longrightarrow> pci_conv_rd_data v d = ROTL_32 (BYTESWAP_32 v) 8"
  "access_sel d = 0x12 \<Longrightarrow> pci_conv_rd_data v d = ROTL_32 (BYTESWAP_32 v) 16"
  "access_sel d = 0x13 \<Longrightarrow> pci_conv_rd_data v d = ROTR_32 (BYTESWAP_32 v) 8"
  by (simp_all add: pci_conv_rd_data_def)

lemma pci_conv_wr_data_sel:
  "access_sel d = 0x04 \<Longrightarrow> pci_conv_wr_data v1 v2 d = (v1 AND NOT 0xFF) OR (v2 AND 0xFF)"
  "access_sel d = 0x05 \<Longrightarrow>
     pci_conv_wr_data v1 v2 d = (v1 AND NOT 0xFF00) OR push_bit 8 (v2 AND 0xFF)"
  "access_sel d = 0x06 \<Longrightarrow>
     pci_conv_wr_data v1 v2 d = (v1 AND NOT 0xFF0000) OR push_bit 16 (v2 AND 0xFF)"
  "access_sel d = 0x07 \<Longrightarrow>
     pci_conv_wr_data v1 v2 d = (v1 AND 0x00FFFFFF) OR push_bit 24 (v2 AND 0xFF)"
  "access_sel d = 0x08 \<Longrightarrow> pci_conv_wr_data v1 v2 d = (v1 AND NOT 0xFFFF) OR BYTESWAP_16 v2"
  "access_sel d = 0x09 \<Longrightarrow>
     pci_conv_wr_data v1 v2 d = (v1 AND NOT 0xFFFF00) OR push_bit 8 (BYTESWAP_16 v2)"
  "access_sel d = 0x0A \<Longrightarrow>
     pci_conv_wr_data v1 v2 d = (v1 AND 0x0000FFFF) OR push_bit 16 (BYTESWAP_16 v2)"
  "access_sel d = 0x0B \<Longrightarrow>
     pci_conv_wr_data v1 v2 d =
       (v1 AND 0x00FFFF00) OR push_bit 16 (v2 AND 0xFF00) OR (v2 AND 0xFF)"
  "access_sel d = 0x10 \<Longrightarrow> pci_conv_wr_data v1 v2 d = BYTESWAP_32 v2"
  "access_sel d = 0x11 \<Longrightarrow> pci_conv_wr_data v1 v2 d = ROTL_32 (BYTESWAP_32 v2) 8"
  "access_sel d = 0x12 \<Longrightarrow> pci_conv_wr_data v1 v2 d = ROTL_32 (BYTESWAP_32 v2) 16"
  "access_sel d = 0x13 \<Longrightarrow> pci_conv_wr_data v1 v2 d = ROTR_32 (BYTESWAP_32 v2) 8"
  by (simp_all add: pci_conv_wr_data_def)

text \<open>Both functions look at the discriminant only; the \<^verbatim>\<open>flags\<close> field is never read.\<close>

lemma pci_conv_round_trip_sel:
  assumes "access_sel d \<in> handled_sel" and "access_sel d' = access_sel d"
  shows "pci_conv_wr_data v (pci_conv_rd_data v d) d' = v"
proof -
  from assms(1) consider
      "access_sel d = 0x04" | "access_sel d = 0x05" | "access_sel d = 0x06"
    | "access_sel d = 0x07" | "access_sel d = 0x08" | "access_sel d = 0x09"
    | "access_sel d = 0x0A" | "access_sel d = 0x0B" | "access_sel d = 0x10"
    | "access_sel d = 0x11" | "access_sel d = 0x12" | "access_sel d = 0x13"
    unfolding handled_sel_def by blast
  then show ?thesis
    by cases
      (simp_all only: pci_conv_rd_data_sel pci_conv_wr_data_sel assms(2) rd_wr_cases)
qed

text \<open>
  With an offset in \<open>0..3\<close> the discriminant determines the size: a size other than
  1, 2 and 4 then has no \<^verbatim>\<open>case\<close> label.
\<close>

lemma bit_u8_low2:
  fixes x :: u8
  assumes "x \<le> 3"
  shows "\<not> bit x (n + 2)"
proof -
  from assms have "x < 2 ^ 2"
    by (simp add: word_less_nat_alt word_le_nat_alt)
  then have "x AND mask 2 = x"
    by (rule less_mask_eq)
  then have "bit x (n + 2) = bit (x AND mask 2) (n + 2)"
    by simp
  then show ?thesis
    by (simp add: bit_simps)
qed

lemma drop_bit_access_sel:
  assumes "offset_ad d \<le> 3"
  shows "drop_bit 2 (access_sel d) = ucast (size_ad d)"
  unfolding access_sel_def
proof (rule bit_word_eqI)
  fix n :: nat
  assume "n < LENGTH(32)"
  with bit_u8_low2 [OF assms, of n]
  show "bit (drop_bit 2 (push_bit 2 (ucast (size_ad d)) OR ucast (offset_ad d)) :: u32) n =
        bit (ucast (size_ad d) :: u32) n"
    by (auto simp: bit_simps dest: bit_imp_le_length)
qed

lemma ucast_u8_u32_u8: "(ucast (ucast (x :: u8) :: u32) :: u8) = x"
  by (rule ucast_up_ucast_id) (simp add: is_up)

lemma access_sel_unhandled:
  assumes "offset_ad d \<le> 3" and "size_ad d \<notin> {1, 2, 4}"
  shows "access_sel d \<notin> handled_sel"
proof
  assume "access_sel d \<in> handled_sel"
  then have "drop_bit 2 (access_sel d) \<in> {1, 2, 4}"
    unfolding handled_sel_def by auto
  then have "(ucast (size_ad d) :: u32) \<in> {1, 2, 4}"
    by (simp add: drop_bit_access_sel [OF assms(1)])
  then have "(ucast (ucast (size_ad d) :: u32) :: u8) \<in> {1, 2, 4}"
    by auto
  then have "size_ad d \<in> {1, 2, 4}"
    by (simp only: ucast_u8_u32_u8)
  with assms(2) show False
    by simp
qed

section \<open>Properties of the byte-lane codec\<close>

text \<open>
  C1. Round trip: for every size in \<open>{1, 2, 4}\<close>, every byte offset in \<open>{0, 1, 2, 3}\<close>
  and every 32-bit backing value \<open>v\<close>, writing back into \<open>v\<close> what was read from \<open>v\<close>
  with the same size and offset gives \<open>v\<close> again: the addressed lanes are reproduced and
  the other bytes are unchanged. The \<^verbatim>\<open>flags\<close> of the two accesses (read, write) may
  differ; neither function reads them.
\<close>

theorem pci_conv_round_trip:
  assumes "size_ad d \<in> {1, 2, 4}" and "offset_ad d \<in> {0, 1, 2, 3}"
    and "size_ad d' = size_ad d" and "offset_ad d' = offset_ad d"
  shows "pci_conv_wr_data v (pci_conv_rd_data v d) d' = v"
proof (rule pci_conv_round_trip_sel)
  show "access_sel d' = access_sel d"
    using assms(3,4) by (simp add: access_sel_def)
  from assms(1,2) show "access_sel d \<in> handled_sel"
    unfolding handled_sel_def by (auto simp: access_sel_valid)
qed

theorem pci_conv_round_trip_witness:
  "pci_conv_wr_data 0xAABBCCDD
     (pci_conv_rd_data 0xAABBCCDD \<lparr>size_ad = 2, offset_ad = 3, flags_ad = 0\<rparr>)
     \<lparr>size_ad = 2, offset_ad = 3, flags_ad = 1\<rparr> = 0xAABBCCDD"
  using pci_conv_round_trip [of "\<lparr>size_ad = 2, offset_ad = 3, flags_ad = 0\<rparr>"
      "\<lparr>size_ad = 2, offset_ad = 3, flags_ad = 1\<rparr>" "0xAABBCCDD"]
  by simp

text \<open>
  C2. Wrap example. For the backing value \<open>0xAABBCCDD\<close> the 2-byte read at offset 3 is
  \<open>0xAADD\<close>, as the specification says. The 4-byte read at offset 1 is \<open>0xCCBBAADD\<close>,
  the left rotation by 8 bits of the byte-swapped value \<open>0xDDCCBBAA\<close>; it is not
  \<open>0xBBCCDDAA\<close>, which is the rotation of the unswapped value.
\<close>

theorem wrap_example:
  "pci_conv_rd_data 0xAABBCCDD \<lparr>size_ad = 2, offset_ad = 3, flags_ad = f\<rparr> = 0xAADD \<and>
   pci_conv_rd_data 0xAABBCCDD \<lparr>size_ad = 4, offset_ad = 1, flags_ad = f\<rparr> = 0xCCBBAADD \<and>
   BYTESWAP_32 0xAABBCCDD = 0xDDCCBBAA \<and>
   ROTL_32 0xDDCCBBAA 8 = 0xCCBBAADD"
  by (simp add: pci_conv_rd_data_def access_sel_def BYTESWAP_32_def ROTL_32_def)

text \<open>
  The value that the specification gives for the 4-byte read at offset 1 of C2,
  \<open>0xBBCCDDAA\<close>, is not the one the function returns.
\<close>

theorem wrap_example_counterexample:
  "\<not> (pci_conv_rd_data 0xAABBCCDD \<lparr>size_ad = 2, offset_ad = 3, flags_ad = 0\<rparr> = 0xAADD \<and>
      pci_conv_rd_data 0xAABBCCDD \<lparr>size_ad = 4, offset_ad = 1, flags_ad = 0\<rparr> = 0xBBCCDDAA)"
  by (simp add: pci_conv_rd_data_def access_sel_def BYTESWAP_32_def ROTL_32_def)

text \<open>
  C7. Sentinel. Both functions are total: neither has a path that aborts. They return
  \<open>0xFFFFFFFF\<close> for every access whose discriminant \<^verbatim>\<open>size << 2 | offset\<close> is none of
  the twelve \<^verbatim>\<open>case\<close> labels; by \<open>access_sel_unhandled\<close> this covers every size other
  than 1, 2 and 4 at an offset in \<open>0..3\<close>. A pair outside the twelve valid ones whose
  discriminant happens to be a label is served as that label: size 0 at offset 4 is the
  1-byte access at offset 0.
\<close>

theorem pci_conv_sentinel:
  assumes "access_sel d \<notin> handled_sel"
  shows "pci_conv_rd_data v d = 0xFFFFFFFF \<and> pci_conv_wr_data v1 v2 d = 0xFFFFFFFF"
  using assms by (simp add: handled_sel_def pci_conv_rd_data_def pci_conv_wr_data_def)

theorem pci_conv_sentinel_witness:
  "pci_conv_rd_data 0xAABBCCDD \<lparr>size_ad = 3, offset_ad = 0, flags_ad = 0\<rparr> = 0xFFFFFFFF \<and>
   pci_conv_wr_data 0xAABBCCDD 0x11223344 \<lparr>size_ad = 3, offset_ad = 0, flags_ad = 0\<rparr>
     = 0xFFFFFFFF"
  using pci_conv_sentinel [of "\<lparr>size_ad = 3, offset_ad = 0, flags_ad = 0\<rparr>"
      "0xAABBCCDD" "0xAABBCCDD" "0x11223344"]
  by (simp add: handled_sel_def access_sel_def)

text \<open>
  The pair (size 0, offset 4) is none of the twelve valid pairs of C7, yet it is not
  answered with the sentinel: its discriminant is \<open>0x04\<close>.
\<close>

theorem pci_conv_sentinel_counterexample:
  "(0 :: u8, 4 :: u8) \<notin> {1, 2, 4} \<times> {0, 1, 2, 3} \<and>
   pci_conv_rd_data 0xAABBCCDD \<lparr>size_ad = 0, offset_ad = 4, flags_ad = 0\<rparr> = 0xDD \<and>
   pci_conv_rd_data 0xAABBCCDD \<lparr>size_ad = 0, offset_ad = 4, flags_ad = 0\<rparr> \<noteq> 0xFFFFFFFF \<and>
   pci_conv_wr_data 0xAABBCCDD 0x11223344 \<lparr>size_ad = 0, offset_ad = 4, flags_ad = 1\<rparr>
     = 0xAABBCC44 \<and>
   pci_conv_wr_data 0xAABBCCDD 0x11223344 \<lparr>size_ad = 0, offset_ad = 4, flags_ad = 1\<rparr>
     \<noteq> 0xFFFFFFFF"
  by (simp add: pci_conv_rd_data_def pci_conv_wr_data_def access_sel_def)

section \<open>Properties of the interrupt state\<close>

lemma and_and_not: "(x AND m) AND NOT m = (0 :: u32)"
  by (rule bit_word_eqI) (simp add: bit_simps)

lemma ack_int_remasks:
  assumes "ack_int c this irq_id irq_line_state = Inr (this', notified)"
  shows "int_events this' AND NOT (int_mask this') = 0"
    and "int_mask this' = int_mask this"
  using assms by (auto simp: ack_int_def Let_def and_and_not split: if_splits)

lemma ack_int_legacy_returns:
  assumes "int_mask this AND MACIO_INT_MODE c \<noteq> 0"
  shows "\<exists>this' notified. ack_int c this irq_id irq_line_state = Inr (this', notified)"
  using assms by (simp add: ack_int_def Let_def)

lemma gc_run_append:
  "gc_run c this (xs @ ys) =
     (case gc_run c this xs of Inl e \<Rightarrow> Inl e | Inr this' \<Rightarrow> gc_run c this' ys)"
  by (induction xs arbitrary: this) (auto split: sum.splits)

text \<open>
  C3. Re-masking invariant: take any controller state and any sequence of calls
  (acknowledgements, register writes, among them mask updates and event clears, and
  register reads). If the sequence ends with an acknowledgement and no call of it aborted,
  which for an acknowledgement means that the controller was in 68k interrupt emulation
  mode, then right after that acknowledgement no event bit is set outside the mask:
  \<^verbatim>\<open>int_events & ~int_mask == 0\<close>. By \<open>ack_int_legacy_returns\<close> an acknowledgement in
  that mode never aborts.
\<close>

theorem ack_int_remasking_invariant:
  assumes "gc_run c this0 (calls @ [call_ack_int irq_id irq_line_state]) = Inr this'"
  shows "int_events this' AND NOT (int_mask this') = 0 \<and>
         int_mask this' AND MACIO_INT_MODE c \<noteq> 0"
proof -
  from assms obtain this1 where
    step: "gc_step c this1 (call_ack_int irq_id irq_line_state) = Inr this'"
    by (auto simp: gc_run_append split: sum.splits)
  then obtain notified where
    ack: "ack_int c this1 irq_id irq_line_state = Inr (this', notified)"
    by (auto split: sum.splits)
  from ack have remasked: "int_events this' AND NOT (int_mask this') = 0"
    by (rule ack_int_remasks(1))
  from ack have "int_mask this1 AND MACIO_INT_MODE c \<noteq> 0"
    by (auto simp: ack_int_def split: if_splits)
  with ack_int_remasks(2) [OF ack] have "int_mask this' AND MACIO_INT_MODE c \<noteq> 0"
    by simp
  with remasked show ?thesis
    by (rule conjI)
qed

theorem ack_int_remasking_invariant_witness:
  "gc_run sample_consts sample_state
     ([set_mask sample_consts 0x480, call_ack_int 0x40000 1,
       clear_events sample_consts 0x400, set_mask sample_consts 0x80] @ [call_ack_int 0x1000 0])
     = Inr (sample_state\<lparr>int_mask := 0x80000000, int_levels := 0x40000\<rparr>) \<and>
   int_events (sample_state\<lparr>int_mask := 0x80000000, int_levels := 0x40000\<rparr>)
     AND NOT (int_mask (sample_state\<lparr>int_mask := 0x80000000, int_levels := 0x40000\<rparr>)) = 0"
proof -
  have run: "gc_run sample_consts sample_state
     ([set_mask sample_consts 0x480, call_ack_int 0x40000 1,
       clear_events sample_consts 0x400, set_mask sample_consts 0x80] @ [call_ack_int 0x1000 0])
     = Inr (sample_state\<lparr>int_mask := 0x80000000, int_levels := 0x40000\<rparr>)"
    by (simp add: sample_consts_def sample_state_def set_mask_def clear_events_def
        GrandCentral_write_def ack_int_def BYTESWAP_32_def Let_def)
  from ack_int_remasking_invariant [OF run] run show ?thesis by simp
qed

text \<open>
  C4. The mask update is not retroactive: the write to \<^verbatim>\<open>MIO_INT_MASK1\<close> (an offset of
  the Interrupt Control window) stores the byte-swapped value in \<^verbatim>\<open>int_mask\<close> and
  changes nothing else, and forwards no call. Hence an event bit that the new mask excludes
  stays set, and \<^verbatim>\<open>int_events & ~int_mask\<close> is not zero after the write.
\<close>

theorem set_mask_frame:
  assumes "MIO_INT_MASK1 c AND 0x10000 = 0" and "MIO_INT_MASK1 c AND 0x8000 = 0"
  shows "GrandCentral_write c this reg_start (MIO_INT_MASK1 c) new_mask sz
           = (this\<lparr>int_mask := BYTESWAP_32 new_mask\<rparr>, None) \<and>
         (int_events this AND NOT (BYTESWAP_32 new_mask) \<noteq> 0 \<longrightarrow>
            (let this' = fst (GrandCentral_write c this reg_start (MIO_INT_MASK1 c) new_mask sz)
             in int_events this' AND NOT (int_mask this') \<noteq> 0))"
  using assms by (simp add: GrandCentral_write_def Let_def)

theorem set_mask_frame_witness:
  "GrandCentral_write sample_consts (sample_state\<lparr>int_mask := 0x80040000, int_events := 0x40000\<rparr>)
       0 (MIO_INT_MASK1 sample_consts) 0x80 4
     = (sample_state\<lparr>int_mask := 0x80000000, int_events := 0x40000\<rparr>, None) \<and>
   int_events (sample_state\<lparr>int_mask := 0x80000000, int_events := 0x40000\<rparr>)
     AND NOT (int_mask (sample_state\<lparr>int_mask := 0x80000000, int_events := 0x40000\<rparr>)) = 0x40000"
  using set_mask_frame [of sample_consts
      "sample_state\<lparr>int_mask := 0x80040000, int_events := 0x40000\<rparr>" 0 "0x80" 4]
  by (simp add: sample_consts_def sample_state_def BYTESWAP_32_def)

section \<open>Properties of the address decoder\<close>

text \<open>
  The subdevice call a read or write is routed to, window by window. Outside the NVRAM
  data registers it does not depend on the controller.
\<close>

lemma read_dev_window:
  assumes "offset AND 0x10000 \<noteq> 0" and "drop_bit 12 offset AND 0xF \<noteq> 0xF"
  shows "fst (GrandCentral_read c this reg_start offset sz)
           = fst (GrandCentral_read c' this' reg_start' offset sz)"
  using assms by (simp add: GrandCentral_read_def Let_def)

lemma read_dma_window:
  assumes "offset AND 0x10000 = 0" and "offset AND 0x8000 \<noteq> 0"
  shows "fst (GrandCentral_read c this reg_start offset sz)
           = fst (GrandCentral_read c' this' reg_start' offset sz)"
  using assms by (simp add: GrandCentral_read_def Let_def)

lemma read_int_window:
  assumes "offset AND 0x10000 = 0" and "offset AND 0x8000 = 0"
  shows "fst (GrandCentral_read c this reg_start offset sz) \<noteq> Subdev call"
  using assms by (simp add: GrandCentral_read_def)

lemma write_dev_window:
  assumes "offset AND 0x10000 \<noteq> 0" and "drop_bit 12 offset AND 0xF \<noteq> 0xF"
  shows "snd (GrandCentral_write c this reg_start offset val sz)
           = snd (GrandCentral_write c' this' reg_start' offset val sz)"
  using assms by (simp add: GrandCentral_write_def Let_def)

lemma write_dma_window:
  assumes "offset AND 0x10000 = 0" and "offset AND 0x8000 \<noteq> 0"
  shows "snd (GrandCentral_write c this reg_start offset val sz)
           = snd (GrandCentral_write c' this' reg_start' offset val sz)"
  using assms by (simp add: GrandCentral_write_def Let_def)

lemma write_int_window:
  assumes "offset AND 0x10000 = 0" and "offset AND 0x8000 = 0"
  shows "snd (GrandCentral_write c this reg_start offset val sz) = None"
  using assms by (simp add: GrandCentral_write_def)


lemma nvram_data_window:
  assumes "offset AND 0x10000 \<noteq> 0" and "drop_bit 12 offset AND 0xF = 0xF"
  shows "fst (GrandCentral_read c this reg_start offset sz)
           = Subdev (nvram_read_byte
               (push_bit 5 (nvram_addr_hi this) + (drop_bit 4 offset AND 0x1F)))"
    and "snd (GrandCentral_write c this reg_start offset val sz)
           = Some (nvram_write_byte
               (push_bit 5 (nvram_addr_hi this) + (drop_bit 4 offset AND 0x1F)) val)"
  using assms by (simp_all add: GrandCentral_read_def GrandCentral_write_def Let_def)

text \<open>
  C5. Routing determinism. For every offset outside the NVRAM data registers (Device
  Register window, subdevice \<open>0xF\<close>), the subdevice call that a read or a write is
  forwarded to, with the register address passed to it, is the same for any two
  controller states and any constants: it depends on the offset alone (and on the size and
  value handed on). For the NVRAM data registers the subdevice is fixed by the offset, but
  the byte address is \<^verbatim>\<open>(nvram_addr_hi << 5) + ((offset >> 4) & 0x1F)\<close>, and
  \<^verbatim>\<open>nvram_addr_hi\<close> is set by earlier writes to subdevice \<open>0xD\<close>: after writing 1 or 2
  there, the same read offset \<open>0x1F000\<close> reaches the byte addresses \<open>0x20\<close> and \<open>0x40\<close>.
\<close>

theorem routing_determinism:
  "(\<not> (offset AND 0x10000 \<noteq> 0 \<and> drop_bit 12 offset AND 0xF = 0xF) \<longrightarrow>
      (\<forall>call. fst (GrandCentral_read c this reg_start offset sz) = Subdev call \<longleftrightarrow>
              fst (GrandCentral_read c' this' reg_start' offset sz) = Subdev call) \<and>
      snd (GrandCentral_write c this reg_start offset val sz)
        = snd (GrandCentral_write c' this' reg_start' offset val sz)) \<and>
   (offset AND 0x10000 \<noteq> 0 \<and> drop_bit 12 offset AND 0xF = 0xF \<longrightarrow>
      fst (GrandCentral_read c this reg_start offset sz)
        = Subdev (nvram_read_byte
            (push_bit 5 (nvram_addr_hi this) + (drop_bit 4 offset AND 0x1F))) \<and>
      snd (GrandCentral_write c this reg_start offset val sz)
        = Some (nvram_write_byte
            (push_bit 5 (nvram_addr_hi this) + (drop_bit 4 offset AND 0x1F)) val))"
proof (intro conjI impI allI)
  assume other: "\<not> (offset AND 0x10000 \<noteq> 0 \<and> drop_bit 12 offset AND 0xF = 0xF)"
  consider (dev) "offset AND 0x10000 \<noteq> 0" "drop_bit 12 offset AND 0xF \<noteq> 0xF"
    | (dma) "offset AND 0x10000 = 0" "offset AND 0x8000 \<noteq> 0"
    | (irq) "offset AND 0x10000 = 0" "offset AND 0x8000 = 0"
    using other by blast
  note windows = this
  show "snd (GrandCentral_write c this reg_start offset val sz)
          = snd (GrandCentral_write c' this' reg_start' offset val sz)"
    using windows
  proof cases
    case dev
    then show ?thesis by (rule write_dev_window)
  next
    case dma
    then show ?thesis by (rule write_dma_window)
  next
    case irq
    then show ?thesis by (simp add: write_int_window)
  qed
  fix call
  show "fst (GrandCentral_read c this reg_start offset sz) = Subdev call \<longleftrightarrow>
        fst (GrandCentral_read c' this' reg_start' offset sz) = Subdev call"
    using windows
  proof cases
    case dev
    then show ?thesis by (simp add: read_dev_window [of offset c this reg_start sz c' this' reg_start'])
  next
    case dma
    then show ?thesis by (simp add: read_dma_window [of offset c this reg_start sz c' this' reg_start'])
  next
    case irq
    then show ?thesis by (simp add: read_int_window)
  qed
next
  assume "offset AND 0x10000 \<noteq> 0 \<and> drop_bit 12 offset AND 0xF = 0xF"
  then show "fst (GrandCentral_read c this reg_start offset sz)
        = Subdev (nvram_read_byte
            (push_bit 5 (nvram_addr_hi this) + (drop_bit 4 offset AND 0x1F)))"
    by (simp add: nvram_data_window)
next
  assume "offset AND 0x10000 \<noteq> 0 \<and> drop_bit 12 offset AND 0xF = 0xF"
  then show "snd (GrandCentral_write c this reg_start offset val sz)
        = Some (nvram_write_byte
            (push_bit 5 (nvram_addr_hi this) + (drop_bit 4 offset AND 0x1F)) val)"
    by (simp add: nvram_data_window)
qed

theorem routing_determinism_witness:
  "(\<forall>call. fst (GrandCentral_read sample_consts sample_state 0 0x12005 1) = Subdev call \<longleftrightarrow>
       fst (GrandCentral_read sample_consts
              (sample_state\<lparr>nvram_addr_hi := 7, int_mask := 5\<rparr>) 0 0x12005 1) = Subdev call) \<and>
   fst (GrandCentral_read sample_consts (sample_state\<lparr>nvram_addr_hi := 7\<rparr>) 0 0x1F010 1)
     = Subdev (nvram_read_byte 0xE1)"
proof -
  have other: "\<not> ((0x12005 :: u32) AND 0x10000 \<noteq> 0 \<and> drop_bit 12 (0x12005 :: u32) AND 0xF = 0xF)"
    by simp
  have nvram: "(0x1F010 :: u32) AND 0x10000 \<noteq> 0 \<and> drop_bit 12 (0x1F010 :: u32) AND 0xF = 0xF"
    by simp
  note d1 = routing_determinism [where offset = "0x12005" and c = sample_consts
      and this = sample_state and reg_start = 0 and sz = 1 and c' = sample_consts
      and this' = "sample_state\<lparr>nvram_addr_hi := 7, int_mask := 5\<rparr>" and reg_start' = 0]
  note d2 = routing_determinism [where offset = "0x1F010" and c = sample_consts
      and this = "sample_state\<lparr>nvram_addr_hi := 7\<rparr>" and reg_start = 0 and sz = 1]
  from d1 other have p1:
    "\<forall>call. fst (GrandCentral_read sample_consts sample_state 0 0x12005 1) = Subdev call \<longleftrightarrow>
       fst (GrandCentral_read sample_consts
              (sample_state\<lparr>nvram_addr_hi := 7, int_mask := 5\<rparr>) 0 0x12005 1) = Subdev call"
    by blast
  from d2 nvram have
    "fst (GrandCentral_read sample_consts (sample_state\<lparr>nvram_addr_hi := 7\<rparr>) 0 0x1F010 1)
       = Subdev (nvram_read_byte
           (push_bit 5 (nvram_addr_hi (sample_state\<lparr>nvram_addr_hi := 7\<rparr>))
              + (drop_bit 4 0x1F010 AND 0x1F)))"
    by blast
  then have p2:
    "fst (GrandCentral_read sample_consts (sample_state\<lparr>nvram_addr_hi := 7\<rparr>) 0 0x1F010 1)
       = Subdev (nvram_read_byte 0xE1)"
    by simp
  from p1 p2 show ?thesis
    by (rule conjI)
qed

text \<open>
  The history dependence of C5 at the NVRAM data registers: the same read offset after
  two different writes to subdevice \<open>0xD\<close>.
\<close>

theorem routing_history_counterexample:
  "fst (GrandCentral_read sample_consts
          (fst (GrandCentral_write sample_consts sample_state 0 0x1D000 1 1)) 0 0x1F000 1)
     = Subdev (nvram_read_byte 0x20) \<and>
   fst (GrandCentral_read sample_consts
          (fst (GrandCentral_write sample_consts sample_state 0 0x1D000 2 1)) 0 0x1F000 1)
     = Subdev (nvram_read_byte 0x40) \<and>
   fst (GrandCentral_read sample_consts
          (fst (GrandCentral_write sample_consts sample_state 0 0x1D000 1 1)) 0 0x1F000 1)
     \<noteq> fst (GrandCentral_read sample_consts
          (fst (GrandCentral_write sample_consts sample_state 0 0x1D000 2 1)) 0 0x1F000 1)"
  by (simp add: GrandCentral_read_def GrandCentral_write_def sample_state_def Let_def)

text \<open>
  C6. ESCC dual addressing: in the Device Register window, subdevice 2 with
  \<^verbatim>\<open>offset & 0xFF == 5\<close> is routed to the ESCC with the compact register index
  \<^verbatim>\<open>(offset >> 1) & 0xF\<close>; with \<^verbatim>\<open>offset & 0xFF == 20\<close> the compact condition
  \<^verbatim>\<open>(offset & 0xFF) < 16\<close> fails and the access falls through to the extended index
  \<^verbatim>\<open>(offset >> 4) & 0xF\<close>. Reads and writes decode alike.
\<close>

theorem escc_dual_addressing:
  assumes "offset AND 0x10000 \<noteq> 0" and "drop_bit 12 offset AND 0xF = 2"
  shows "(offset AND 0xFF = 5 \<longrightarrow>
            GrandCentral_read c this reg_start offset sz
              = (Subdev (escc_read (drop_bit 1 offset AND 0xF)), this) \<and>
            GrandCentral_write c this reg_start offset val sz
              = (this, Some (escc_write (drop_bit 1 offset AND 0xF) val))) \<and>
         (offset AND 0xFF = 20 \<longrightarrow>
            GrandCentral_read c this reg_start offset sz
              = (Subdev (escc_read (drop_bit 4 offset AND 0xF)), this) \<and>
            GrandCentral_write c this reg_start offset val sz
              = (this, Some (escc_write (drop_bit 4 offset AND 0xF) val)))"
  using assms by (simp add: GrandCentral_read_def GrandCentral_write_def Let_def)

theorem escc_dual_addressing_witness:
  "GrandCentral_read sample_consts sample_state 0 0x12005 1
     = (Subdev (escc_read 2), sample_state) \<and>
   GrandCentral_write sample_consts sample_state 0 0x12005 0x55 1
     = (sample_state, Some (escc_write 2 0x55)) \<and>
   GrandCentral_read sample_consts sample_state 0 0x12014 1
     = (Subdev (escc_read 1), sample_state) \<and>
   GrandCentral_write sample_consts sample_state 0 0x12014 0x55 1
     = (sample_state, Some (escc_write 1 0x55))"
  using escc_dual_addressing [of "0x12005" sample_consts sample_state 0 1 "0x55"]
    escc_dual_addressing [of "0x12014" sample_consts sample_state 0 1 "0x55"]
  by simp

text \<open>
  C8. Accesses to unknown registers are recoverable. In the Device Register window a
  read of a subdevice that the read switch does not name returns 0, and a write to a
  subdevice that the write switch does not name changes nothing; so do a read and a write
  in the DMA window at any subdevice other than 8, a read in the Interrupt Control window
  at an offset other than the mask, levels and events registers, and a write there at an
  offset other than the mask and clear registers. None of them forwards a call, and neither
  function has a path that aborts.
\<close>

theorem unknown_register_recoverable:
  "(offset AND 0x10000 \<noteq> 0 \<and>
      drop_bit 12 offset AND 0xF \<notin> {0, 1, 2, 3, 4, 6, 7, 0xA, 0xF} \<longrightarrow>
      GrandCentral_read c this reg_start offset sz = (Value 0, this)) \<and>
   (offset AND 0x10000 \<noteq> 0 \<and>
      drop_bit 12 offset AND 0xF \<notin> {0, 1, 2, 3, 4, 6, 7, 0xD, 0xF} \<longrightarrow>
      GrandCentral_write c this reg_start offset val sz = (this, None)) \<and>
   (offset AND 0x10000 = 0 \<and> offset AND 0x8000 \<noteq> 0 \<and> drop_bit 12 offset AND 0xF \<noteq> 8 \<longrightarrow>
      GrandCentral_read c this reg_start offset sz = (Value 0, this) \<and>
      GrandCentral_write c this reg_start offset val sz = (this, None)) \<and>
   (offset AND 0x10000 = 0 \<and> offset AND 0x8000 = 0 \<and>
      offset \<notin> {MIO_INT_MASK1 c, MIO_INT_LEVELS1 c, MIO_INT_EVENTS1 c} \<longrightarrow>
      GrandCentral_read c this reg_start offset sz = (Value 0, this)) \<and>
   (offset AND 0x10000 = 0 \<and> offset AND 0x8000 = 0 \<and>
      offset \<notin> {MIO_INT_MASK1 c, MIO_INT_CLEAR1 c} \<longrightarrow>
      GrandCentral_write c this reg_start offset val sz = (this, None))"
proof (intro conjI impI)
  assume "offset AND 0x10000 \<noteq> 0 \<and>
      drop_bit 12 offset AND 0xF \<notin> {0, 1, 2, 3, 4, 6, 7, 0xA, 0xF}"
  then show "GrandCentral_read c this reg_start offset sz = (Value 0, this)"
    by (simp add: GrandCentral_read_def Let_def)
next
  assume "offset AND 0x10000 \<noteq> 0 \<and>
      drop_bit 12 offset AND 0xF \<notin> {0, 1, 2, 3, 4, 6, 7, 0xD, 0xF}"
  then show "GrandCentral_write c this reg_start offset val sz = (this, None)"
    by (simp add: GrandCentral_write_def Let_def)
next
  assume "offset AND 0x10000 = 0 \<and> offset AND 0x8000 \<noteq> 0 \<and> drop_bit 12 offset AND 0xF \<noteq> 8"
  then show "GrandCentral_read c this reg_start offset sz = (Value 0, this)"
    by (simp add: GrandCentral_read_def Let_def)
next
  assume "offset AND 0x10000 = 0 \<and> offset AND 0x8000 \<noteq> 0 \<and> drop_bit 12 offset AND 0xF \<noteq> 8"
  then show "GrandCentral_write c this reg_start offset val sz = (this, None)"
    by (simp add: GrandCentral_write_def Let_def)
next
  assume "offset AND 0x10000 = 0 \<and> offset AND 0x8000 = 0 \<and>
      offset \<notin> {MIO_INT_MASK1 c, MIO_INT_LEVELS1 c, MIO_INT_EVENTS1 c}"
  then show "GrandCentral_read c this reg_start offset sz = (Value 0, this)"
    by (simp add: GrandCentral_read_def)
next
  assume "offset AND 0x10000 = 0 \<and> offset AND 0x8000 = 0 \<and>
      offset \<notin> {MIO_INT_MASK1 c, MIO_INT_CLEAR1 c}"
  then show "GrandCentral_write c this reg_start offset val sz = (this, None)"
    by (simp add: GrandCentral_write_def)
qed

theorem unknown_register_recoverable_witness:
  "GrandCentral_read sample_consts sample_state 0 0x15000 1 = (Value 0, sample_state) \<and>
   GrandCentral_write sample_consts sample_state 0 0x1B000 0x55 1 = (sample_state, None) \<and>
   GrandCentral_read sample_consts sample_state 0 0x9000 1 = (Value 0, sample_state) \<and>
   GrandCentral_write sample_consts sample_state 0 0x9000 0x55 1 = (sample_state, None) \<and>
   GrandCentral_read sample_consts sample_state 0 0x30 4 = (Value 0, sample_state) \<and>
   GrandCentral_write sample_consts sample_state 0 0x30 0x55 4 = (sample_state, None)"
  using
    unknown_register_recoverable [where offset = "0x15000" and c = sample_consts
      and this = sample_state and reg_start = 0 and sz = 1]
    unknown_register_recoverable [where offset = "0x1B000" and c = sample_consts
      and this = sample_state and reg_start = 0 and sz = 1 and val = "0x55"]
    unknown_register_recoverable [where offset = "0x9000" and c = sample_consts
      and this = sample_state and reg_start = 0 and sz = 1 and val = "0x55"]
    unknown_register_recoverable [where offset = "0x30" and c = sample_consts
      and this = sample_state and reg_start = 0 and sz = 4 and val = "0x55"]
  by (simp add: sample_consts_def)

section \<open>Fatal configuration errors\<close>

text \<open>
  C9. \<^verbatim>\<open>register_dev_int\<close> returns a bit for exactly the three known sources
  (\<open>VIA_CUDA\<close>: bit 18, \<open>SCSI1\<close>: bit 12, \<open>SWIM3\<close>: bit 19) and aborts for every other
  source; \<^verbatim>\<open>ack_int\<close> aborts whenever \<^verbatim>\<open>int_mask & MACIO_INT_MODE\<close> is zero (native
  mode).
\<close>

theorem configuration_errors_fatal:
  "register_dev_int VIA_CUDA = Inr (push_bit 18 1) \<and>
   register_dev_int SCSI1 = Inr (push_bit 12 1) \<and>
   register_dev_int SWIM3 = Inr (push_bit 19 1) \<and>
   (src_id \<notin> {VIA_CUDA, SCSI1, SWIM3} \<longrightarrow> register_dev_int src_id = Inl unknown_interrupt_source) \<and>
   (int_mask this AND MACIO_INT_MODE c = 0 \<longrightarrow>
      ack_int c this irq_id irq_line_state = Inl native_interrupt_mode_not_implemented)"
  by (cases src_id) (simp_all add: register_dev_int_def ack_int_def)

theorem configuration_errors_fatal_witness:
  "register_dev_int (other_IntSrc 7) = Inl unknown_interrupt_source \<and>
   ack_int sample_consts sample_state 0x40000 1 = Inl native_interrupt_mode_not_implemented"
  using configuration_errors_fatal [where src_id = "other_IntSrc 7" and this = sample_state
      and c = sample_consts and irq_id = "0x40000" and irq_line_state = 1]
  by (simp add: sample_state_def sample_consts_def)

section \<open>The mask register through the bus byte swap\<close>

text \<open>
  C10. Writing \<open>v\<close> to \<^verbatim>\<open>MIO_INT_MASK1\<close> (an offset of the Interrupt Control window) and
  then reading \<^verbatim>\<open>MIO_INT_MASK1\<close> returns \<open>v\<close>, and the read leaves the controller as
  the write left it.
\<close>

theorem mask_register_round_trip:
  assumes "MIO_INT_MASK1 c AND 0x10000 = 0" and "MIO_INT_MASK1 c AND 0x8000 = 0"
  shows "GrandCentral_read c (fst (GrandCentral_write c this reg_start (MIO_INT_MASK1 c) v sz))
           reg_start' (MIO_INT_MASK1 c) sz'
         = (Value v, fst (GrandCentral_write c this reg_start (MIO_INT_MASK1 c) v sz))"
  using assms
  by (simp add: GrandCentral_read_def GrandCentral_write_def BYTESWAP_32_involution)

theorem mask_register_round_trip_witness:
  "GrandCentral_read sample_consts
     (fst (GrandCentral_write sample_consts sample_state 0 0x24 0x12345678 4)) 0 0x24 4
   = (Value 0x12345678, sample_state\<lparr>int_mask := 0x78563412\<rparr>)"
  using mask_register_round_trip [where c = sample_consts and this = sample_state
      and reg_start = 0 and v = "0x12345678" and sz = 4 and reg_start' = 0 and sz' = 4]
  by (simp add: sample_consts_def sample_state_def GrandCentral_write_def BYTESWAP_32_def)

end
